theory Spec2Isabelle
  imports Main
begin

section \<open>JavaScript strings\<close>

text \<open>
  The question and the options arrive as JavaScript strings. Such a string is a sequence
  of UTF-16 code units, \<open>length\<close> counts code units, and \<open>trim()\<close> strips the
  ECMAScript white space and line terminator code points from both ends. A code unit is
  given by its numeric value. Messages returned to the caller are fixed ASCII literals and
  are kept as HOL strings.
\<close>

type_synonym code_unit = nat
type_synonym jsstring = "code_unit list"

definition is_ws :: "code_unit \<Rightarrow> bool" where
  "is_ws c =
     ((9 \<le> c \<and> c \<le> 13) \<or> c = 32 \<or> c = 160 \<or> c = 5760 \<or> (8192 \<le> c \<and> c \<le> 8202) \<or>
      c = 8232 \<or> c = 8233 \<or> c = 8239 \<or> c = 8287 \<or> c = 12288 \<or> c = 65279)"

definition trim :: "jsstring \<Rightarrow> jsstring" where
  "trim s = rev (dropWhile is_ws (rev (dropWhile is_ws s)))"

definition js :: "string \<Rightarrow> jsstring" where
  "js s = map of_char s"

section \<open>Form data\<close>

text \<open>
  A \<open>FormData\<close> object is an ordered list of (name, value) entries. \<open>get\<close> returns the
  first value stored under a name, or null; \<open>getAll\<close> returns all of them in order.
  The actions cast the values to strings, so the values are strings here.
\<close>

type_synonym formData = "(string \<times> jsstring) list"

definition fd_get :: "formData \<Rightarrow> string \<Rightarrow> jsstring option" where
  "fd_get formData name = map_of formData name"

definition fd_getAll :: "formData \<Rightarrow> string \<Rightarrow> jsstring list" where
  "fd_getAll formData name = map snd (filter (\<lambda>entry. fst entry = name) formData)"

section \<open>The store\<close>

text \<open>
  The two tables of the schema (README, "Set up Database Schema"): \<open>polls\<close> with primary
  key \<open>id\<close>, and \<open>votes\<close> with primary key \<open>id\<close>, a foreign key \<open>poll_id\<close> that cascades
  on delete, and the constraint \<open>UNIQUE (poll_id, user_id)\<close>. Identifiers are kept as
  strings; an identifier the engine rejects as malformed is one of the engine's faults below.
  \<open>created_at\<close> is a point in time, kept as a number.
\<close>

type_synonym uuid = string

record poll_row =
  poll_id :: uuid
  poll_user_id :: uuid
  poll_question :: jsstring
  poll_options :: "jsstring list"
  poll_created_at :: nat

record vote_row =
  vote_id :: uuid
  vote_poll_id :: uuid
  vote_user_id :: uuid
  vote_option_index :: int
  vote_created_at :: nat

record db =
  polls :: "poll_row list"
  votes :: "vote_row list"

text \<open>An error object of the storage client: the engine's code and its message text.\<close>

record db_error =
  err_code :: string
  err_message :: string

definition PGRST116 :: db_error where
  "PGRST116 = \<lparr>err_code = ''PGRST116'',
     err_message = ''JSON object requested, multiple (or no) rows returned''\<rparr>"

definition unique_violation :: db_error where
  "unique_violation = \<lparr>err_code = ''23505'',
     err_message = ''duplicate key value violates unique constraint''\<rparr>"

definition foreign_key_violation :: db_error where
  "foreign_key_violation = \<lparr>err_code = ''23503'',
     err_message = ''insert or update on table violates foreign key constraint''\<rparr>"

text \<open>
  What one call of an action receives from its collaborators: the answer of
  \<open>supabase.auth.getUser()\<close> (the user and the error of the answer), the faults of the
  storage engine (entry \<open>k\<close> is the error with which the engine rejects the \<open>k\<close>-th storage
  call of the action, if it does: a lost connection, a denied permission, a constraint hit
  by a concurrent request), and the defaults the engine fills in on insert
  (\<open>uuid_generate_v4()\<close> and \<open>now()\<close>).
\<close>

record env =
  getUser_user :: "uuid option"
  getUser_error :: "string option"
  faults :: "db_error option list"
  new_id :: uuid
  now :: nat

definition fault_at :: "db_error option list \<Rightarrow> nat \<Rightarrow> db_error option" where
  "fault_at fs k = (if k < length fs then fs ! k else None)"

text \<open>\<open>.single()\<close>: exactly one row is the data; none or several is the error PGRST116.\<close>

fun single :: "'a list \<Rightarrow> db_error + 'a" where
  "single [r] = Inr r"
| "single rs = Inl PGRST116"

definition insert_poll :: "db_error option \<Rightarrow> poll_row \<Rightarrow> db \<Rightarrow> db_error option \<times> db" where
  "insert_poll fault row d =
     (case fault of
        Some err \<Rightarrow> (Some err, d)
      | None \<Rightarrow>
          if poll_id row \<in> set (map poll_id (polls d)) then (Some unique_violation, d)
          else (None, d\<lparr>polls := polls d @ [row]\<rparr>))"

definition select_polls_by_user :: "db_error option \<Rightarrow> uuid \<Rightarrow> db \<Rightarrow> db_error + poll_row list" where
  "select_polls_by_user fault uid d =
     (case fault of
        Some err \<Rightarrow> Inl err
      | None \<Rightarrow> Inr (rev (sort_key poll_created_at (filter (\<lambda>r. poll_user_id r = uid) (polls d)))))"

definition select_poll_by_id_user :: "db_error option \<Rightarrow> uuid \<Rightarrow> uuid \<Rightarrow> db \<Rightarrow> db_error + poll_row" where
  "select_poll_by_id_user fault pid uid d =
     (case fault of
        Some err \<Rightarrow> Inl err
      | None \<Rightarrow> single (filter (\<lambda>r. poll_id r = pid \<and> poll_user_id r = uid) (polls d)))"

definition select_poll_options :: "db_error option \<Rightarrow> uuid \<Rightarrow> db \<Rightarrow> db_error + jsstring list" where
  "select_poll_options fault pid d =
     (case fault of
        Some err \<Rightarrow> Inl err
      | None \<Rightarrow> single (map poll_options (filter (\<lambda>r. poll_id r = pid) (polls d))))"

definition update_polls ::
  "db_error option \<Rightarrow> jsstring \<Rightarrow> jsstring list \<Rightarrow> uuid \<Rightarrow> uuid \<Rightarrow> db \<Rightarrow> db_error option \<times> db" where
  "update_polls fault question options pid uid d =
     (case fault of
        Some err \<Rightarrow> (Some err, d)
      | None \<Rightarrow>
          (None, d\<lparr>polls :=
             map (\<lambda>r. if poll_id r = pid \<and> poll_user_id r = uid
                       then r\<lparr>poll_question := question, poll_options := options\<rparr> else r)
               (polls d)\<rparr>))"

definition delete_polls :: "db_error option \<Rightarrow> uuid \<Rightarrow> uuid \<Rightarrow> db \<Rightarrow> db_error option \<times> db" where
  "delete_polls fault pid uid d =
     (case fault of
        Some err \<Rightarrow> (Some err, d)
      | None \<Rightarrow>
          (let gone = map poll_id (filter (\<lambda>r. poll_id r = pid \<and> poll_user_id r = uid) (polls d))
           in (None, d\<lparr>polls := filter (\<lambda>r. \<not> (poll_id r = pid \<and> poll_user_id r = uid)) (polls d),
                       votes := filter (\<lambda>v. vote_poll_id v \<notin> set gone) (votes d)\<rparr>)))"

definition select_vote_id :: "db_error option \<Rightarrow> uuid \<Rightarrow> uuid \<Rightarrow> db \<Rightarrow> db_error + uuid" where
  "select_vote_id fault pid uid d =
     (case fault of
        Some err \<Rightarrow> Inl err
      | None \<Rightarrow>
          single (map vote_id (filter (\<lambda>v. vote_poll_id v = pid \<and> vote_user_id v = uid) (votes d))))"

definition insert_vote :: "db_error option \<Rightarrow> vote_row \<Rightarrow> db \<Rightarrow> db_error option \<times> db" where
  "insert_vote fault row d =
     (case fault of
        Some err \<Rightarrow> (Some err, d)
      | None \<Rightarrow>
          if vote_id row \<in> set (map vote_id (votes d)) then (Some unique_violation, d)
          else if (vote_poll_id row, vote_user_id row)
                    \<in> set (map (\<lambda>v. (vote_poll_id v, vote_user_id v)) (votes d))
          then (Some unique_violation, d)
          else if vote_poll_id row \<in> set (map poll_id (polls d))
          then (None, d\<lparr>votes := votes d @ [row]\<rparr>)
          else (Some foreign_key_violation, d))"

section \<open>The poll actions\<close>

text \<open>
  Each action returns the object it hands to its caller together with the store after the
  call. The \<open>error\<close> field is \<open>None\<close> for \<open>null\<close>. \<open>revalidatePath\<close> invalidates a
  page cache and touches neither table; it is left out. The option index of a vote is a
  whole number, as the column \<open>option_index integer\<close> stores it. The two reads of
  \<open>getUserPolls\<close> and \<open>getPollById\<close> leave the store as it is, so they return the
  object only.
\<close>

text \<open>The loop over the options: the first option that is blank or too long ends the action.\<close>

fun check_options :: "jsstring list \<Rightarrow> string option" where
  "check_options [] = None"
| "check_options (option # rest) =
     (if length (trim option) = 0 \<or> length option > 100
      then Some ''Each option must be between 1 and 100 characters.''
      else check_options rest)"

definition createPoll :: "env \<Rightarrow> formData \<Rightarrow> db \<Rightarrow> string option \<times> db" where
  "createPoll e formData d =
     (let question = fd_get formData ''question'';
          options = filter (\<lambda>s. s \<noteq> []) (fd_getAll formData ''options'')
      in (case question of
            None \<Rightarrow> (Some ''Poll question must be between 1 and 255 characters.'', d)
          | Some q \<Rightarrow>
             (if q = [] \<or> length (trim q) = 0 \<or> length q > 255
              then (Some ''Poll question must be between 1 and 255 characters.'', d)
              else if length options < 2 then (Some ''Please provide at least two options.'', d)
              else (case check_options options of
                      Some msg \<Rightarrow> (Some msg, d)
                    | None \<Rightarrow>
                       (if getUser_error e \<noteq> None then (Some ''Authentication failed.'', d)
                        else (case getUser_user e of
                                None \<Rightarrow> (Some ''You must be logged in to create a poll.'', d)
                              | Some user \<Rightarrow>
                                 (case insert_poll (fault_at (faults e) 0)
                                         \<lparr>poll_id = new_id e, poll_user_id = user,
                                          poll_question = q, poll_options = options,
                                          poll_created_at = now e\<rparr> d of
                                    (Some err, d') \<Rightarrow> (Some ''Failed to create poll.'', d')
                                  | (None, d') \<Rightarrow> (None, d'))))))))"

definition getUserPolls :: "env \<Rightarrow> db \<Rightarrow> poll_row list \<times> string option" where
  "getUserPolls e d =
     (case getUser_user e of
        None \<Rightarrow> ([], Some ''Not authenticated'')
      | Some user \<Rightarrow>
          (case select_polls_by_user (fault_at (faults e) 0) user d of
             Inl err \<Rightarrow> ([], Some (err_message err))
           | Inr data \<Rightarrow> (data, None)))"

definition getPollById :: "env \<Rightarrow> uuid \<Rightarrow> db \<Rightarrow> poll_row option \<times> string option" where
  "getPollById e ident d =
     (case getUser_user e of
        None \<Rightarrow> (None, Some ''You must be logged in to view this poll.'')
      | Some user \<Rightarrow>
         (if getUser_error e \<noteq> None
          then (None, Some ''You must be logged in to view this poll.'')
          else (case select_poll_by_id_user (fault_at (faults e) 0) ident user d of
                  Inl err \<Rightarrow> (None, Some ''Failed to retrieve poll.'')
                | Inr data \<Rightarrow> (Some data, None))))"

definition submitVote :: "env \<Rightarrow> uuid \<Rightarrow> int \<Rightarrow> db \<Rightarrow> string option \<times> db" where
  "submitVote e pollId optionIndex d =
     (case getUser_user e of
        None \<Rightarrow> (Some ''You must be logged in to vote.'', d)
      | Some user \<Rightarrow>
         (if pollId = [] then (Some ''Invalid poll ID.'', d)
          else (case select_poll_options (fault_at (faults e) 0) pollId d of
                  Inl pollError \<Rightarrow> (Some ''Poll not found or an error occurred.'', d)
                | Inr options \<Rightarrow>
                   (if optionIndex < 0 \<or> optionIndex \<ge> int (length options)
                    then (Some ''Invalid option selected.'', d)
                    else (case select_vote_id (fault_at (faults e) 1) pollId user d of
                            Inr existingVote \<Rightarrow> (Some ''You have already voted on this poll.'', d)
                          | Inl existingVoteError \<Rightarrow>
                             (if err_code existingVoteError \<noteq> ''PGRST116''
                              then (Some ''Failed to check for existing vote.'', d)
                              else (case insert_vote (fault_at (faults e) 2)
                                           \<lparr>vote_id = new_id e, vote_poll_id = pollId,
                                            vote_user_id = user, vote_option_index = optionIndex,
                                            vote_created_at = now e\<rparr> d of
                                      (Some err, d') \<Rightarrow> (Some ''Failed to submit vote.'', d')
                                    | (None, d') \<Rightarrow> (None, d'))))))))"

definition deletePoll :: "env \<Rightarrow> uuid \<Rightarrow> db \<Rightarrow> string option \<times> db" where
  "deletePoll e ident d =
     (case getUser_user e of
        None \<Rightarrow> (Some ''You must be logged in to delete a poll.'', d)
      | Some user \<Rightarrow>
         (if getUser_error e \<noteq> None then (Some ''You must be logged in to delete a poll.'', d)
          else (case delete_polls (fault_at (faults e) 0) ident user d of
                  (Some err, d') \<Rightarrow> (Some ''Failed to delete poll.'', d')
                | (None, d') \<Rightarrow> (None, d'))))"

definition updatePoll :: "env \<Rightarrow> uuid \<Rightarrow> formData \<Rightarrow> db \<Rightarrow> string option \<times> db" where
  "updatePoll e pollId formData d =
     (let question = fd_get formData ''question'';
          options = filter (\<lambda>s. s \<noteq> []) (fd_getAll formData ''options'')
      in (case question of
            None \<Rightarrow> (Some ''Poll question must be between 1 and 255 characters.'', d)
          | Some q \<Rightarrow>
             (if q = [] \<or> length (trim q) = 0 \<or> length q > 255
              then (Some ''Poll question must be between 1 and 255 characters.'', d)
              else if length options < 2 then (Some ''Please provide at least two options.'', d)
              else (case check_options options of
                      Some msg \<Rightarrow> (Some msg, d)
                    | None \<Rightarrow>
                       (if getUser_error e \<noteq> None then (Some ''Authentication failed.'', d)
                        else (case getUser_user e of
                                None \<Rightarrow> (Some ''You must be logged in to update a poll.'', d)
                              | Some user \<Rightarrow>
                                 (case update_polls (fault_at (faults e) 0) q options pollId user d of
                                    (Some err, d') \<Rightarrow> (Some ''Failed to update poll.'', d')
                                  | (None, d') \<Rightarrow> (None, d'))))))))"

section \<open>Derived notions and example data\<close>

text \<open>
  The question passes when the first guard of \<open>createPoll\<close> and \<open>updatePoll\<close> does not
  fire; an input passes validation when none of the three guards does.
\<close>

definition question_passes :: "formData \<Rightarrow> bool" where
  "question_passes formData =
     (case fd_get formData ''question'' of
        None \<Rightarrow> False
      | Some q \<Rightarrow> q \<noteq> [] \<and> length (trim q) \<noteq> 0 \<and> length q \<le> 255)"

definition passes_validation :: "formData \<Rightarrow> bool" where
  "passes_validation formData =
     (case fd_get formData ''question'' of
        None \<Rightarrow> False
      | Some q \<Rightarrow>
          q \<noteq> [] \<and> length (trim q) \<noteq> 0 \<and> length q \<le> 255 \<and>
          2 \<le> length (filter (\<lambda>s. s \<noteq> []) (fd_getAll formData ''options'')) \<and>
          check_options (filter (\<lambda>s. s \<noteq> []) (fd_getAll formData ''options'')) = None)"

definition color_form :: formData where
  "color_form =
     [(''question'', js ''Color?''), (''options'', js ''Red''), (''options'', js ''Blue'')]"

definition one_option_form :: formData where
  "one_option_form = [(''question'', js ''Color?''), (''options'', js ''Red'')]"

definition blank_form :: formData where
  "blank_form =
     [(''question'', js ''Color?''), (''options'', js ''Red''), (''options'', js ''  '')]"

definition padded_question :: jsstring where
  "padded_question = 81 # replicate 255 32"

definition padded_form :: formData where
  "padded_form =
     [(''question'', padded_question), (''options'', js ''Red''), (''options'', js ''Blue'')]"

definition spaced_form :: formData where
  "spaced_form =
     [(''question'', js ''  Color?  ''), (''options'', js ''Red''), (''options'', js ''Blue'')]"

definition who_poll :: poll_row where
  "who_poll = \<lparr>poll_id = ''p1'', poll_user_id = ''u1'', poll_question = js ''Who?'',
     poll_options = [js ''Ann'', js ''Bob''], poll_created_at = 1\<rparr>"

definition when_poll :: poll_row where
  "when_poll = \<lparr>poll_id = ''p2'', poll_user_id = ''u2'', poll_question = js ''When?'',
     poll_options = [js ''Now'', js ''Later''], poll_created_at = 2\<rparr>"

definition db0 :: db where
  "db0 = \<lparr>polls = [], votes = []\<rparr>"

definition db1 :: db where
  "db1 = \<lparr>polls = [who_poll], votes = []\<rparr>"

definition db2 :: db where
  "db2 = \<lparr>polls = [who_poll, when_poll],
     votes = [\<lparr>vote_id = ''v1'', vote_poll_id = ''p2'', vote_user_id = ''u1'',
               vote_option_index = 0, vote_created_at = 3\<rparr>]\<rparr>"

definition db1_voted :: db where
  "db1_voted = \<lparr>polls = [who_poll],
     votes = [\<lparr>vote_id = ''n1'', vote_poll_id = ''p1'', vote_user_id = ''u2'',
               vote_option_index = 0, vote_created_at = 5\<rparr>]\<rparr>"

definition env_anon :: env where
  "env_anon = \<lparr>getUser_user = None, getUser_error = None, faults = [],
     new_id = ''n1'', now = 5\<rparr>"

definition env_u1 :: env where
  "env_u1 = \<lparr>getUser_user = Some ''u1'', getUser_error = None, faults = [],
     new_id = ''n1'', now = 5\<rparr>"

definition env_u2 :: env where
  "env_u2 = \<lparr>getUser_user = Some ''u2'', getUser_error = None, faults = [],
     new_id = ''n1'', now = 5\<rparr>"

definition env_u2_later :: env where
  "env_u2_later = \<lparr>getUser_user = Some ''u2'', getUser_error = None, faults = [],
     new_id = ''n2'', now = 6\<rparr>"

definition permission_denied :: db_error where
  "permission_denied =
     \<lparr>err_code = ''42501'', err_message = ''permission denied for table polls''\<rparr>"

definition env_down :: env where
  "env_down = \<lparr>getUser_user = Some ''u1'', getUser_error = None,
     faults = [Some permission_denied], new_id = ''n1'', now = 5\<rparr>"

text \<open>
  The engine rejects the third storage call, the insert, with a unique violation: what a
  concurrent vote of the same principal on the same poll, landing between the check for an
  existing vote and the insert, makes of it.
\<close>

definition env_race :: env where
  "env_race = \<lparr>getUser_user = Some ''u2'', getUser_error = None,
     faults = [None, None, Some unique_violation], new_id = ''n1'', now = 5\<rparr>"

section \<open>Auxiliary facts\<close>

lemmas example_defs =
  color_form_def one_option_form_def blank_form_def padded_form_def spaced_form_def
  who_poll_def when_poll_def db0_def db1_def db2_def db1_voted_def
  env_anon_def env_u1_def env_u2_def env_u2_later_def permission_denied_def env_down_def
  env_race_def

lemmas eval_defs =
  fd_get_def fd_getAll_def js_def trim_def is_ws_def fault_at_def

lemmas store_defs =
  insert_poll_def select_poll_options_def select_vote_id_def insert_vote_def update_polls_def
  PGRST116_def unique_violation_def

lemma distinct_map_eq:
  "distinct (map f xs) \<Longrightarrow> x \<in> set xs \<Longrightarrow> y \<in> set xs \<Longrightarrow> f x = f y \<Longrightarrow> x = y"
  by (meson distinct_map inj_onD)

lemma trim_Nil [simp]: "trim [] = []"
  by (simp add: trim_def)

lemma trim_padded:
  assumes "\<not> is_ws c"
  shows "trim (c # replicate n 32) = [c]"
proof -
  have "is_ws 32"
    by (simp add: is_ws_def)
  then have "dropWhile is_ws (replicate n 32 @ [c]) = [c]"
    using assms by (simp add: dropWhile_append)
  then show ?thesis
    using assms by (simp add: trim_def)
qed

lemma padded_question_facts:
  "length (trim padded_question) = 1" "length padded_question = 256" "padded_question \<noteq> []"
  by (simp_all add: padded_question_def trim_padded is_ws_def)

lemma check_options_eq:
  "check_options os =
     (if list_ex (\<lambda>option. length (trim option) = 0 \<or> 100 < length option) os
      then Some ''Each option must be between 1 and 100 characters.'' else None)"
  by (induction os) auto

lemma passes_validation_alt:
  "passes_validation fd =
     (question_passes fd \<and>
      2 \<le> length (filter (\<lambda>s. s \<noteq> []) (fd_getAll fd ''options'')) \<and>
      check_options (filter (\<lambda>s. s \<noteq> []) (fd_getAll fd ''options'')) = None)"
  by (simp add: passes_validation_def question_passes_def split: option.splits)

text \<open>An input that does not pass validation ends both actions alike, before any other step.\<close>

lemma validation_outcome:
  assumes "\<not> passes_validation fd"
  shows "\<exists>msg. (msg = ''Poll question must be between 1 and 255 characters.'' \<or>
             msg = ''Please provide at least two options.'' \<or>
             msg = ''Each option must be between 1 and 100 characters.'') \<and>
     createPoll e fd d = (Some msg, d) \<and> updatePoll e pid fd d = (Some msg, d)"
proof (cases "fd_get fd ''question''")
  case None
  then show ?thesis
    by (simp add: createPoll_def updatePoll_def)
next
  case (Some q)
  show ?thesis
  proof (cases "q = [] \<or> length (trim q) = 0 \<or> length q > 255")
    case True
    with Some show ?thesis
      by (simp add: createPoll_def updatePoll_def)
  next
    case qok: False
    show ?thesis
    proof (cases "length (filter (\<lambda>s. s \<noteq> []) (fd_getAll fd ''options'')) < 2")
      case True
      with Some qok show ?thesis
        by (simp add: createPoll_def updatePoll_def)
    next
      case False
      with Some qok assms
      have "check_options (filter (\<lambda>s. s \<noteq> []) (fd_getAll fd ''options'')) =
              Some ''Each option must be between 1 and 100 characters.''"
        by (auto simp: passes_validation_def check_options_eq split: if_splits)
      with Some qok False show ?thesis
        by (simp add: createPoll_def updatePoll_def)
    qed
  qed
qed

lemma filter_nonblank:
  "filter (\<lambda>s. trim s \<noteq> []) (filter (\<lambda>s. s \<noteq> []) xs) = filter (\<lambda>s. trim s \<noteq> []) xs"
  by (induction xs) auto

lemma few_nonblank_has_blank:
  assumes "length (filter (\<lambda>s. trim s \<noteq> []) xs) < 2" and "2 \<le> length xs"
  shows "list_ex (\<lambda>option. length (trim option) = 0 \<or> 100 < length option) xs"
proof (rule ccontr)
  assume "\<not> list_ex (\<lambda>option. length (trim option) = 0 \<or> 100 < length option) xs"
  then have "\<forall>x\<in>set xs. trim x \<noteq> []"
    by (auto simp: list_ex_iff)
  then have "filter (\<lambda>s. trim s \<noteq> []) xs = xs"
    by simp
  with assms show False by simp
qed

lemma submitVote_success:
  assumes "submitVote e p i d = (None, d')" and "getUser_user e = Some u"
  shows "p \<noteq> []"
    and "(p, u) \<notin> set (map (\<lambda>v. (vote_poll_id v, vote_user_id v)) (votes d))"
    and "d' = d\<lparr>votes := votes d @
              [\<lparr>vote_id = new_id e, vote_poll_id = p, vote_user_id = u,
                vote_option_index = i, vote_created_at = now e\<rparr>]\<rparr>"
  using assms
  by (auto simp: submitVote_def insert_vote_def
      split: option.splits sum.splits if_splits prod.splits)

lemma no_vote_filter:
  "(p, u) \<notin> set (map (\<lambda>v. (vote_poll_id v, vote_user_id v)) vs) \<longleftrightarrow>
   filter (\<lambda>v. vote_poll_id v = p \<and> vote_user_id v = u) vs = []"
  by (auto simp: filter_empty_conv)

lemma insert_vote_duplicate:
  "filter (\<lambda>v. vote_poll_id v = vote_poll_id row \<and> vote_user_id v = vote_user_id row) (votes d)
     \<noteq> [] \<Longrightarrow>
   \<exists>err. insert_vote f row d = (Some err, d)"
  using no_vote_filter [of "vote_poll_id row" "vote_user_id row" "votes d"]
  by (cases f) (auto simp: insert_vote_def simp del: set_map)

section \<open>Update and delete when no row matches\<close>

text \<open>
  Claim C1. When no poll row matches both the id and the calling principal, \<open>updatePoll\<close>
  and \<open>deletePoll\<close> affect no row and leave the store as it was. The claim also asks
  for a generic failure; the code returns \<open>{ error: null }\<close>, the same object as after a
  successful update or delete: the storage client reports no error for an update or delete
  that matches no row, and neither action counts the affected rows.
\<close>

theorem updatePoll_deletePoll_no_match_reports_success:
  assumes "passes_validation formData"
    and "getUser_user e = Some u" and "getUser_error e = None"
    and "fault_at (faults e) 0 = None"
    and "filter (\<lambda>r. poll_id r = pid \<and> poll_user_id r = u) (polls d) = []"
  shows "updatePoll e pid formData d = (None, d) \<and> deletePoll e pid d = (None, d)"
proof -
  have nomatch: "\<not> (poll_id r = pid \<and> poll_user_id r = u)" if "r \<in> set (polls d)" for r
    using assms(5) that by (auto simp: filter_empty_conv)
  have same: "map (\<lambda>r. if poll_id r = pid \<and> poll_user_id r = u
                        then r\<lparr>poll_question := q, poll_options := os\<rparr> else r) (polls d)
              = polls d" for q os
    by (rule map_idI) (use nomatch in auto)
  have kept: "filter (\<lambda>r. \<not> (poll_id r = pid \<and> poll_user_id r = u)) (polls d) = polls d"
    using nomatch by simp
  have upd: "updatePoll e pid formData d = (None, d)"
    using assms(1-4) same
    by (auto simp: updatePoll_def passes_validation_def update_polls_def Let_def
        split: option.splits)
  have del: "deletePoll e pid d = (None, d)"
    using assms(2-5) kept by (simp add: deletePoll_def delete_polls_def)
  from upd del show ?thesis by simp
qed

theorem updatePoll_deletePoll_no_match_witness:
  "updatePoll env_u2 ''p1'' color_form db1 = (None, db1) \<and>
   deletePoll env_u2 ''p1'' db1 = (None, db1) \<and>
   updatePoll env_u2 ''p9'' color_form db1 = (None, db1) \<and>
   deletePoll env_u2 ''p9'' db1 = (None, db1)"
  using
    updatePoll_deletePoll_no_match_reports_success
      [where formData = color_form and e = env_u2 and u = "''u2''" and d = db1 and pid = "''p1''"]
    updatePoll_deletePoll_no_match_reports_success
      [where formData = color_form and e = env_u2 and u = "''u2''" and d = db1 and pid = "''p9''"]
  by (simp add: passes_validation_def example_defs eval_defs)

section \<open>Errors handed to the caller\<close>

text \<open>
  Claim C2. The claim asks that no action hands the engine's own error text to its caller.
  \<open>getUserPolls\<close> does: on a storage error it returns \<open>error.message\<close>, whatever the
  engine wrote there.
\<close>

theorem getUserPolls_returns_engine_message:
  "getUser_user e = Some u \<Longrightarrow> fault_at (faults e) 0 = Some err \<Longrightarrow>
   getUserPolls e d = ([], Some (err_message err))"
  by (simp add: getUserPolls_def select_polls_by_user_def)

theorem getUserPolls_engine_message_witness:
  "getUserPolls env_down db1 = ([], Some ''permission denied for table polls'')"
  using getUserPolls_returns_engine_message
    [where e = env_down and u = "''u1''" and d = db1 and err = permission_denied]
  by (simp add: example_defs fault_at_def)

text \<open>
  The other four poll actions hand out fixed messages only: whatever error the engine
  raises, the \<open>error\<close> of the returned object is \<open>null\<close> or one of the literals below.
\<close>

lemma createPoll_fixed_messages:
  "fst (createPoll e fd d) \<in>
     {None, Some ''Poll question must be between 1 and 255 characters.'',
      Some ''Please provide at least two options.'',
      Some ''Each option must be between 1 and 100 characters.'',
      Some ''Authentication failed.'', Some ''You must be logged in to create a poll.'',
      Some ''Failed to create poll.''}"
  by (auto simp: createPoll_def Let_def check_options_eq
      split: option.splits if_splits prod.splits)

lemma updatePoll_fixed_messages:
  "fst (updatePoll e pid fd d) \<in>
     {None, Some ''Poll question must be between 1 and 255 characters.'',
      Some ''Please provide at least two options.'',
      Some ''Each option must be between 1 and 100 characters.'',
      Some ''Authentication failed.'', Some ''You must be logged in to update a poll.'',
      Some ''Failed to update poll.''}"
  by (auto simp: updatePoll_def Let_def check_options_eq
      split: option.splits if_splits prod.splits)

lemma getPollById_fixed_messages:
  "snd (getPollById e pid d) \<in>
     {None, Some ''You must be logged in to view this poll.'', Some ''Failed to retrieve poll.''}"
  by (auto simp: getPollById_def split: option.splits sum.splits)

lemma deletePoll_fixed_messages:
  "fst (deletePoll e pid d) \<in>
     {None, Some ''You must be logged in to delete a poll.'', Some ''Failed to delete poll.''}"
  by (auto simp: deletePoll_def split: option.splits prod.splits)

section \<open>One vote per principal and poll\<close>

text \<open>
  Claim C3, as stated, fails: the action maps every error of the vote insert, a unique
  violation included, to "Failed to submit vote.", and a repeated vote with an option index
  out of range is turned away as "Invalid option selected." before the check for an
  existing vote.
\<close>

theorem submitVote_insert_violation_generic:
  "submitVote env_race ''p1'' 0 db1 = (Some ''Failed to submit vote.'', db1) \<and>
   fst (submitVote env_race ''p1'' 0 db1) \<noteq> Some ''You have already voted on this poll.'' \<and>
   submitVote env_u1 ''p2'' 7 db2 = (Some ''Invalid option selected.'', db2)"
  by (simp add: submitVote_def store_defs example_defs eval_defs)

text \<open>
  Claim C3, amended. For a principal \<open>u\<close> and a poll \<open>p\<close>: a successful \<open>submitVote\<close>
  leaves exactly one vote row of \<open>u\<close> on \<open>p\<close>; while such a row exists, no
  \<open>submitVote\<close> of \<open>u\<close> on \<open>p\<close> succeeds or changes the store; a second attempt
  right after the first, with an option index in range and no fault in its two reads, fails
  with "You have already voted on this poll."; and a vote insert that the engine rejects,
  where without the rejection the call would have succeeded, fails with
  "Failed to submit vote." and writes nothing.
\<close>

theorem submitVote_vote_uniqueness:
  assumes "getUser_user e = Some u"
  shows
    "(submitVote e p i d = (None, d') \<longrightarrow>
        length (filter (\<lambda>v. vote_poll_id v = p \<and> vote_user_id v = u) (votes d')) = 1) \<and>
     (filter (\<lambda>v. vote_poll_id v = p \<and> vote_user_id v = u) (votes d) \<noteq> [] \<longrightarrow>
        fst (submitVote e p i d) \<noteq> None \<and> snd (submitVote e p i d) = d) \<and>
     (submitVote e p i d = (None, d') \<and> getUser_user e2 = Some u \<and>
      fault_at (faults e2) 0 = None \<and> fault_at (faults e2) 1 = None \<and>
      select_poll_options None p d = Inr opts \<and> 0 \<le> j \<and> j < int (length opts) \<longrightarrow>
        submitVote e2 p j d' = (Some ''You have already voted on this poll.'', d')) \<and>
     (submitVote (e\<lparr>faults := []\<rparr>) p i d = (None, d') \<longrightarrow>
        submitVote (e\<lparr>faults := [None, None, Some err]\<rparr>) p i d =
          (Some ''Failed to submit vote.'', d))"
proof -
  let ?mine = "\<lambda>v. vote_poll_id v = p \<and> vote_user_id v = u"
  have one: "length (filter ?mine (votes d')) = 1" if "submitVote e p i d = (None, d')"
  proof -
    note s = submitVote_success [OF that assms]
    have "filter ?mine (votes d) = []"
      using s(2) by (simp only: no_vote_filter)
    then show ?thesis
      by (simp add: s(3))
  qed
  have blocked: "fst (submitVote e p i d) \<noteq> None \<and> snd (submitVote e p i d) = d"
    if dup: "filter ?mine (votes d) \<noteq> []"
  proof -
    obtain err where "insert_vote (fault_at (faults e) 2)
          \<lparr>vote_id = new_id e, vote_poll_id = p, vote_user_id = u,
           vote_option_index = i, vote_created_at = now e\<rparr> d = (Some err, d)"
      using insert_vote_duplicate
        [of "\<lparr>vote_id = new_id e, vote_poll_id = p, vote_user_id = u,
              vote_option_index = i, vote_created_at = now e\<rparr>" d "fault_at (faults e) 2"] dup
      by auto
    then show ?thesis
      using assms by (simp add: submitVote_def split: sum.splits)
  qed
  have again: "submitVote e2 p j d' = (Some ''You have already voted on this poll.'', d')"
    if first: "submitVote e p i d = (None, d')" and u2: "getUser_user e2 = Some u"
      and f0: "fault_at (faults e2) 0 = None" and f1: "fault_at (faults e2) 1 = None"
      and opts: "select_poll_options None p d = Inr opts" and j: "0 \<le> j" "j < int (length opts)"
  proof -
    note s = submitVote_success [OF first assms]
    have none: "filter ?mine (votes d) = []"
      using s(2) by (simp only: no_vote_filter)
    have o: "select_poll_options None p d' = Inr opts"
      using opts by (simp add: s(3) select_poll_options_def)
    have v: "select_vote_id None p u d' = Inr (new_id e)"
      by (simp add: s(3) select_vote_id_def none)
    show ?thesis
      using s(1) u2 f0 f1 o v j by (simp add: submitVote_def)
  qed
  have rejected: "submitVote (e\<lparr>faults := [None, None, Some err]\<rparr>) p i d =
          (Some ''Failed to submit vote.'', d)"
    if "submitVote (e\<lparr>faults := []\<rparr>) p i d = (None, d')"
    using that assms
    by (auto simp: submitVote_def fault_at_def insert_vote_def
        split: option.splits sum.splits if_splits prod.splits)
  from one blocked again rejected show ?thesis
    by blast
qed

theorem submitVote_vote_uniqueness_witness:
  "submitVote env_u2 ''p1'' 0 db1 = (None, db1_voted) \<and>
   length (filter (\<lambda>v. vote_poll_id v = ''p1'' \<and> vote_user_id v = ''u2'') (votes db1_voted)) = 1 \<and>
   submitVote env_u2_later ''p1'' 1 db1_voted =
     (Some ''You have already voted on this poll.'', db1_voted) \<and>
   submitVote env_race ''p1'' 0 db1 = (Some ''Failed to submit vote.'', db1)"
  using submitVote_vote_uniqueness
    [where e = env_u2 and u = "''u2''" and p = "''p1''" and i = 0 and d = db1
       and ?e2.0 = env_u2_later and j = 1 and opts = "[js ''Ann'', js ''Bob'']"
       and err = unique_violation and d' = db1_voted]
  by (simp add: submitVote_def store_defs example_defs eval_defs)

section \<open>Validation comes before the principal\<close>

text \<open>
  Claim C4, as stated, fails: \<open>createPoll\<close> and \<open>updatePoll\<close> validate the input before
  they ask for the principal, so an invalid input without a principal ends with the
  validation message.
\<close>

theorem createPoll_updatePoll_invalid_input_unauthenticated:
  "createPoll env_anon one_option_form db1 =
     (Some ''Please provide at least two options.'', db1) \<and>
   updatePoll env_anon ''p1'' one_option_form db1 =
     (Some ''Please provide at least two options.'', db1) \<and>
   fst (createPoll env_anon one_option_form db1) \<noteq>
     Some ''You must be logged in to create a poll.'' \<and>
   fst (updatePoll env_anon ''p1'' one_option_form db1) \<noteq>
     Some ''You must be logged in to update a poll.''"
  by (simp add: createPoll_def updatePoll_def example_defs eval_defs)

text \<open>
  Claim C4, amended. Called with no resolved principal, \<open>createPoll\<close> and \<open>updatePoll\<close>
  fail without writing: for an input that passes validation with
  "You must be logged in to create a poll." (respectively "... to update a poll."), or with
  "Authentication failed." when the identity provider reports an error; for an input that
  does not pass validation with one of the three validation messages, the same for both
  actions.
\<close>

theorem createPoll_updatePoll_validate_then_authenticate:
  assumes "getUser_user e = None"
  shows "(passes_validation fd \<longrightarrow>
            createPoll e fd d =
              (Some (if getUser_error e = None then ''You must be logged in to create a poll.''
                     else ''Authentication failed.''), d) \<and>
            updatePoll e pid fd d =
              (Some (if getUser_error e = None then ''You must be logged in to update a poll.''
                     else ''Authentication failed.''), d)) \<and>
         (\<not> passes_validation fd \<longrightarrow>
            createPoll e fd d = updatePoll e pid fd d \<and> snd (createPoll e fd d) = d \<and>
            fst (createPoll e fd d) \<in>
              {Some ''Poll question must be between 1 and 255 characters.'',
               Some ''Please provide at least two options.'',
               Some ''Each option must be between 1 and 100 characters.''})"
proof -
  have "createPoll e fd d =
              (Some (if getUser_error e = None then ''You must be logged in to create a poll.''
                     else ''Authentication failed.''), d) \<and>
            updatePoll e pid fd d =
              (Some (if getUser_error e = None then ''You must be logged in to update a poll.''
                     else ''Authentication failed.''), d)" if "passes_validation fd"
    using that assms
    by (auto simp: passes_validation_def createPoll_def updatePoll_def Let_def
        split: option.splits)
  moreover have "createPoll e fd d = updatePoll e pid fd d \<and> snd (createPoll e fd d) = d \<and>
            fst (createPoll e fd d) \<in>
              {Some ''Poll question must be between 1 and 255 characters.'',
               Some ''Please provide at least two options.'',
               Some ''Each option must be between 1 and 100 characters.''}"
    if "\<not> passes_validation fd"
    using validation_outcome [OF that, of e d pid] by auto
  ultimately show ?thesis by blast
qed

theorem createPoll_updatePoll_validate_then_authenticate_witness:
  "createPoll env_anon color_form db1 = (Some ''You must be logged in to create a poll.'', db1) \<and>
   updatePoll env_anon ''p1'' color_form db1 =
     (Some ''You must be logged in to update a poll.'', db1) \<and>
   snd (createPoll env_anon one_option_form db1) = db1"
  using
    createPoll_updatePoll_validate_then_authenticate
      [where e = env_anon and fd = color_form and d = db1 and pid = "''p1''"]
    createPoll_updatePoll_validate_then_authenticate
      [where e = env_anon and fd = one_option_form and d = db1 and pid = "''p1''"]
  by (simp add: passes_validation_def createPoll_def updatePoll_def example_defs eval_defs)

section \<open>Blank options\<close>

text \<open>
  Claim C5, as stated, fails: \<open>filter(Boolean)\<close> drops the empty entries only. A
  whitespace-only entry stays, is counted towards the two-option minimum, and is then
  rejected by the loop over the options with "Each option must be between 1 and 100
  characters.", not with "Please provide at least two options.".
\<close>

theorem whitespace_option_counted:
  "length (filter (\<lambda>s. trim s \<noteq> []) (fd_getAll blank_form ''options'')) = 1 \<and>
   createPoll env_u1 blank_form db0 =
     (Some ''Each option must be between 1 and 100 characters.'', db0) \<and>
   updatePoll env_u1 ''p1'' blank_form db1 =
     (Some ''Each option must be between 1 and 100 characters.'', db1) \<and>
   fst (createPoll env_u1 blank_form db0) \<noteq> Some ''Please provide at least two options.''"
  by (simp add: createPoll_def updatePoll_def example_defs eval_defs)

text \<open>
  Claim C5, amended. For every options sequence with fewer than 2 non-blank entries,
  \<open>createPoll\<close> and \<open>updatePoll\<close> fail with a validation message and write no row.
  When the question passes its check the message is "Please provide at least two options."
  if fewer than 2 non-empty entries were submitted, and "Each option must be between 1 and
  100 characters." otherwise.
\<close>

theorem few_nonblank_options_rejected:
  assumes "length (filter (\<lambda>s. trim s \<noteq> []) (fd_getAll fd ''options'')) < 2"
  shows "snd (createPoll e fd d) = d \<and> snd (updatePoll e pid fd d) = d \<and>
         createPoll e fd d = updatePoll e pid fd d \<and>
         fst (createPoll e fd d) \<in>
           {Some ''Poll question must be between 1 and 255 characters.'',
            Some ''Please provide at least two options.'',
            Some ''Each option must be between 1 and 100 characters.''} \<and>
         (question_passes fd \<longrightarrow>
            fst (createPoll e fd d) =
              Some (if length (filter (\<lambda>s. s \<noteq> []) (fd_getAll fd ''options'')) < 2
                    then ''Please provide at least two options.''
                    else ''Each option must be between 1 and 100 characters.''))"
proof -
  let ?os = "filter (\<lambda>s. s \<noteq> []) (fd_getAll fd ''options'')"
  have few: "length (filter (\<lambda>s. trim s \<noteq> []) ?os) < 2"
    using assms by (simp only: filter_nonblank)
  have bad: "check_options ?os = Some ''Each option must be between 1 and 100 characters.''"
    if "2 \<le> length ?os"
    using few_nonblank_has_blank [OF few that] by (simp only: check_options_eq if_True)
  have inv: "\<not> passes_validation fd"
    using bad by (auto simp: passes_validation_alt)
  have q: "fst (createPoll e fd d) =
              Some (if length ?os < 2
                    then ''Please provide at least two options.''
                    else ''Each option must be between 1 and 100 characters.'')"
    if "question_passes fd"
  proof (cases "length ?os < 2")
    case True
    with that show ?thesis
      by (auto simp: createPoll_def question_passes_def Let_def split: option.splits)
  next
    case False
    then have "check_options ?os = Some ''Each option must be between 1 and 100 characters.''"
      using bad by simp
    with that False show ?thesis
      by (auto simp: createPoll_def question_passes_def Let_def split: option.splits)
  qed
  obtain msg where msg: "msg = ''Poll question must be between 1 and 255 characters.'' \<or>
             msg = ''Please provide at least two options.'' \<or>
             msg = ''Each option must be between 1 and 100 characters.''"
    and c: "createPoll e fd d = (Some msg, d)" and u: "updatePoll e pid fd d = (Some msg, d)"
    using validation_outcome [OF inv, of e d pid] by blast
  from msg q show ?thesis
    unfolding u c by auto
qed

theorem few_nonblank_options_rejected_witness:
  "createPoll env_u1 blank_form db1 =
     (Some ''Each option must be between 1 and 100 characters.'', db1) \<and>
   updatePoll env_u1 ''p1'' blank_form db1 =
     (Some ''Each option must be between 1 and 100 characters.'', db1) \<and>
   createPoll env_u1 one_option_form db1 = (Some ''Please provide at least two options.'', db1)"
  using
    few_nonblank_options_rejected
      [where fd = blank_form and e = env_u1 and d = db1 and pid = "''p1''"]
    few_nonblank_options_rejected
      [where fd = one_option_form and e = env_u1 and d = db1 and pid = "''p1''"]
  by (simp add: createPoll_def updatePoll_def question_passes_def example_defs eval_defs)

section \<open>The length of the question\<close>

text \<open>
  Claim C6, as stated, fails: the lower bound is checked on the trimmed question, the upper
  bound on the question as submitted. A question of one letter followed by 255 spaces has
  trimmed length 1 and is rejected.
\<close>

theorem padded_question_rejected:
  "length (trim padded_question) = 1 \<and>
   createPoll env_u1 padded_form db0 =
     (Some ''Poll question must be between 1 and 255 characters.'', db0) \<and>
   updatePoll env_u1 ''p1'' padded_form db1 =
     (Some ''Poll question must be between 1 and 255 characters.'', db1)"
  by (simp add: createPoll_def updatePoll_def padded_form_def fd_get_def padded_question_facts)

text \<open>
  Claim C6, amended. For a submitted question, \<open>createPoll\<close> and \<open>updatePoll\<close> fail
  with the question-length message exactly when its length after trimming is 0 or its
  length before trimming is greater than 255. So a question whose trimmed length is in
  [1,255] passes the question check if and only if its untrimmed length is at most 255.
\<close>

theorem question_rejected_iff:
  assumes "fd_get fd ''question'' = Some q"
  shows "(fst (createPoll e fd d) = Some ''Poll question must be between 1 and 255 characters.''
            \<longleftrightarrow> length (trim q) = 0 \<or> 255 < length q) \<and>
         (fst (updatePoll e pid fd d) = Some ''Poll question must be between 1 and 255 characters.''
            \<longleftrightarrow> length (trim q) = 0 \<or> 255 < length q)"
proof (cases "q = [] \<or> length (trim q) = 0 \<or> length q > 255")
  case True
  then have "length (trim q) = 0 \<or> 255 < length q"
    by auto
  with True assms show ?thesis
    by (simp add: createPoll_def updatePoll_def)
next
  case False
  then have no: "\<not> (length (trim q) = 0 \<or> 255 < length q)"
    by auto
  have c: "fst (createPoll e fd d) \<noteq> Some ''Poll question must be between 1 and 255 characters.''"
    using False assms
    by (auto simp: createPoll_def Let_def check_options_eq
        split: option.splits if_splits prod.splits)
  have u: "fst (updatePoll e pid fd d) \<noteq> Some ''Poll question must be between 1 and 255 characters.''"
    using False assms
    by (auto simp: updatePoll_def Let_def check_options_eq
        split: option.splits if_splits prod.splits)
  from no c u show ?thesis by simp
qed

theorem question_rejected_iff_witness:
  "length (trim (js ''  Color?  '')) = 6 \<and>
   fst (createPoll env_u1 spaced_form db0) \<noteq>
     Some ''Poll question must be between 1 and 255 characters.'' \<and>
   fst (updatePoll env_u1 ''p1'' padded_form db1) =
     Some ''Poll question must be between 1 and 255 characters.''"
  using
    question_rejected_iff
      [where fd = spaced_form and q = "js ''  Color?  ''" and e = env_u1 and d = db0
         and pid = "''p1''"]
    question_rejected_iff
      [where fd = padded_form and q = padded_question and e = env_u1 and d = db1
         and pid = "''p1''"]
  by (simp add: spaced_form_def padded_form_def fd_get_def padded_question_facts)
     (simp add: eval_defs)

section \<open>What a created poll is\<close>

text \<open>
  Claim C7, as stated, fails in its last part: \<open>createPoll\<close> returns \<open>{ error: null }\<close>
  and nothing else. Two calls whose new rows get different identifiers hand the same object
  to their callers.
\<close>

theorem createPoll_result_hides_new_id:
  "fst (createPoll env_u2 color_form db1) = None \<and>
   fst (createPoll env_u2_later color_form db1) = None \<and>
   poll_id (last (polls (snd (createPoll env_u2 color_form db1)))) = ''n1'' \<and>
   poll_id (last (polls (snd (createPoll env_u2_later color_form db1)))) = ''n2''"
  by (simp add: createPoll_def insert_poll_def example_defs eval_defs)

text \<open>
  Claim C7, amended. A successful \<open>createPoll\<close> appends exactly one poll row, owned by the
  calling principal, with the question as submitted, the submitted options without the
  empty entries, and the identifier and creation time the engine assigns; it changes nothing
  else and returns only \<open>{ error: null }\<close>. It does succeed for an input that passes
  validation, a resolved principal, no fault and a fresh identifier.
\<close>

theorem createPoll_success_inserts_one_row:
  "(createPoll e fd d = (None, d') \<longrightarrow>
      (\<exists>u q. getUser_user e = Some u \<and> fd_get fd ''question'' = Some q \<and>
         d' = d\<lparr>polls := polls d @
                [\<lparr>poll_id = new_id e, poll_user_id = u, poll_question = q,
                  poll_options = filter (\<lambda>s. s \<noteq> []) (fd_getAll fd ''options''),
                  poll_created_at = now e\<rparr>]\<rparr>)) \<and>
   (passes_validation fd \<and> getUser_user e \<noteq> None \<and> getUser_error e = None \<and>
    fault_at (faults e) 0 = None \<and> new_id e \<notin> set (map poll_id (polls d)) \<longrightarrow>
      fst (createPoll e fd d) = None)"
proof -
  have a: "\<exists>u q. getUser_user e = Some u \<and> fd_get fd ''question'' = Some q \<and>
         d' = d\<lparr>polls := polls d @
                [\<lparr>poll_id = new_id e, poll_user_id = u, poll_question = q,
                  poll_options = filter (\<lambda>s. s \<noteq> []) (fd_getAll fd ''options''),
                  poll_created_at = now e\<rparr>]\<rparr>"
    if "createPoll e fd d = (None, d')"
    using that
    by (auto simp: createPoll_def insert_poll_def Let_def
        split: option.splits if_splits prod.splits)
  have b: "fst (createPoll e fd d) = None"
    if "passes_validation fd" "getUser_user e \<noteq> None" "getUser_error e = None"
      "fault_at (faults e) 0 = None" "new_id e \<notin> set (map poll_id (polls d))"
    using that
    by (auto simp: createPoll_def passes_validation_def insert_poll_def Let_def
        split: option.splits)
  from a b show ?thesis by blast
qed

theorem createPoll_success_inserts_one_row_witness:
  "createPoll env_u2 color_form db1 =
     (None, db1\<lparr>polls := [who_poll,
        \<lparr>poll_id = ''n1'', poll_user_id = ''u2'', poll_question = js ''Color?'',
         poll_options = [js ''Red'', js ''Blue''], poll_created_at = 5\<rparr>]\<rparr>)"
  using createPoll_success_inserts_one_row [where e = env_u2 and fd = color_form and d = db1]
  by (simp add: createPoll_def insert_poll_def passes_validation_def example_defs eval_defs)

section \<open>Reading a poll that is missing or owned by someone else\<close>

text \<open>
  Claim C8. For an authenticated principal \<open>b\<close> and a poll id, \<open>getPollById\<close> returns
  the same object when the store holds no poll of that id as when the poll exists and is
  owned by another principal: \<open>{ poll: null, error: "Failed to retrieve poll." }\<close>. This
  holds whatever the engine's faults are.
\<close>

theorem getPollById_missing_or_foreign_indistinguishable:
  assumes "getUser_user e = Some b"
    and "pid \<notin> set (map poll_id (polls d1))"
    and "distinct (map poll_id (polls d2))"
    and "r \<in> set (polls d2)" and "poll_id r = pid" and "poll_user_id r \<noteq> b"
  shows "getPollById e pid d1 = getPollById e pid d2 \<and>
         (getUser_error e = None \<longrightarrow>
            getPollById e pid d2 = (None, Some ''Failed to retrieve poll.''))"
proof -
  have f1: "filter (\<lambda>r. poll_id r = pid \<and> poll_user_id r = b) (polls d1) = []"
    using assms(2) by (auto simp: filter_empty_conv)
  have "\<not> (poll_id r' = pid \<and> poll_user_id r' = b)" if "r' \<in> set (polls d2)" for r'
    using distinct_map_eq [OF assms(3) that assms(4)] assms(5,6) by auto
  then have f2: "filter (\<lambda>r. poll_id r = pid \<and> poll_user_id r = b) (polls d2) = []"
    by (simp add: filter_empty_conv)
  have sel: "select_poll_by_id_user f pid b d1 = select_poll_by_id_user f pid b d2" for f
    by (cases f) (simp_all add: select_poll_by_id_user_def f1 f2)
  have eq: "getPollById e pid d1 = getPollById e pid d2"
    by (simp add: getPollById_def assms(1) sel)
  have nf: "getPollById e pid d2 = (None, Some ''Failed to retrieve poll.'')"
    if "getUser_error e = None"
    using that assms(1)
    by (cases "fault_at (faults e) 0")
       (simp_all add: getPollById_def select_poll_by_id_user_def f2)
  from eq nf show ?thesis by simp
qed

theorem getPollById_missing_or_foreign_witness:
  "getPollById env_u2 ''p1'' db0 = getPollById env_u2 ''p1'' db1 \<and>
   getPollById env_u2 ''p1'' db1 = (None, Some ''Failed to retrieve poll.'')"
  using getPollById_missing_or_foreign_indistinguishable
    [where e = env_u2 and b = "''u2''" and pid = "''p1''" and ?d1.0 = db0 and ?d2.0 = db1
       and r = who_poll]
  by (simp add: example_defs)

section \<open>What an update changes\<close>

text \<open>
  Claim C9. After a successful \<open>updatePoll\<close> the polls table has the same rows in the
  same places; every row keeps its id, its owner and its creation time; a row that is not
  the caller's poll of the given id is unchanged; the votes table is unchanged. So only
  the question and the options of the caller's poll can differ.
\<close>

theorem updatePoll_frame:
  assumes "updatePoll e pid formData d = (None, d')" and "getUser_user e = Some u"
  shows "length (polls d') = length (polls d) \<and> votes d' = votes d \<and>
         (\<forall>i < length (polls d).
            poll_id (polls d' ! i) = poll_id (polls d ! i) \<and>
            poll_user_id (polls d' ! i) = poll_user_id (polls d ! i) \<and>
            poll_created_at (polls d' ! i) = poll_created_at (polls d ! i) \<and>
            (poll_id (polls d ! i) = pid \<and> poll_user_id (polls d ! i) = u \<or>
             polls d' ! i = polls d ! i))"
proof -
  obtain q os where d': "d' = d\<lparr>polls :=
      map (\<lambda>r. if poll_id r = pid \<and> poll_user_id r = u
                then r\<lparr>poll_question := q, poll_options := os\<rparr> else r) (polls d)\<rparr>"
    using assms
    by (auto simp: updatePoll_def update_polls_def Let_def
        split: option.splits if_splits prod.splits)
  show ?thesis unfolding d' by simp
qed

theorem updatePoll_frame_witness:
  "updatePoll env_u1 ''p1'' color_form db2 =
     (None, db2\<lparr>polls := [who_poll\<lparr>poll_question := js ''Color?'',
                                   poll_options := [js ''Red'', js ''Blue'']\<rparr>, when_poll]\<rparr>) \<and>
   length (polls (snd (updatePoll env_u1 ''p1'' color_form db2))) = 2 \<and>
   poll_id (polls (snd (updatePoll env_u1 ''p1'' color_form db2)) ! 0) = ''p1'' \<and>
   poll_user_id (polls (snd (updatePoll env_u1 ''p1'' color_form db2)) ! 0) = ''u1'' \<and>
   poll_created_at (polls (snd (updatePoll env_u1 ''p1'' color_form db2)) ! 0) = 1 \<and>
   polls (snd (updatePoll env_u1 ''p1'' color_form db2)) ! 1 = when_poll \<and>
   votes (snd (updatePoll env_u1 ''p1'' color_form db2)) = votes db2"
proof -
  have run: "updatePoll env_u1 ''p1'' color_form db2 =
     (None, db2\<lparr>polls := [who_poll\<lparr>poll_question := js ''Color?'',
                                   poll_options := [js ''Red'', js ''Blue'']\<rparr>, when_poll]\<rparr>)"
    by (simp add: updatePoll_def update_polls_def example_defs eval_defs)
  have u: "getUser_user env_u1 = Some ''u1''"
    by (simp add: env_u1_def)
  from updatePoll_frame [OF run u] run show ?thesis
    by (simp add: example_defs)
qed

section \<open>What a vote changes\<close>

text \<open>
  Claim C10. \<open>submitVote\<close> never changes the polls table. When it succeeds the votes
  table gains exactly one row, for the given poll and the calling principal; in every
  other outcome the store is unchanged.
\<close>

theorem submitVote_frame:
  "polls (snd (submitVote e pollId optionIndex d)) = polls d \<and>
   (fst (submitVote e pollId optionIndex d) = None \<longrightarrow>
      (\<exists>row. votes (snd (submitVote e pollId optionIndex d)) = votes d @ [row] \<and>
             vote_poll_id row = pollId \<and> getUser_user e = Some (vote_user_id row))) \<and>
   (fst (submitVote e pollId optionIndex d) \<noteq> None \<longrightarrow>
      snd (submitVote e pollId optionIndex d) = d)"
  by (auto simp: submitVote_def insert_vote_def
      split: option.splits sum.splits if_splits prod.splits)

theorem submitVote_frame_witness:
  "polls (snd (submitVote env_u2 ''p1'' 0 db1)) = polls db1 \<and>
   submitVote env_u2 ''p1'' 0 db1 = (None, db1_voted) \<and>
   submitVote env_u2 ''p1'' 2 db1 = (Some ''Invalid option selected.'', db1)"
  using submitVote_frame [of env_u2 "''p1''" 0 db1]
    submitVote_frame [of env_u2 "''p1''" 2 db1]
  by (simp add: submitVote_def store_defs example_defs eval_defs)

end
